theory Spec2Isabelle
  imports Complex_Main
begin

section \<open>Market-cap tranche tracking of \<open>getBalances.js\<close>\<close>

subsection \<open>JavaScript numbers\<close>

text \<open>
  A market cap is a JavaScript Number: the script computes it as
  \<^verbatim>\<open>parseFloat(priceData) * 1e9\<close>, which is a finite double, an infinity or NaN.
  Every finite double is a real number and the relational operators compare finite doubles
  exactly, so a finite Number is modelled by the real it denotes (the two zeros coincide,
  as they do under \<^verbatim>\<open><\<close> and \<^verbatim>\<open>===\<close>); the three other values are
  kept apart because the comparisons treat them differently.
\<close>

datatype jsnum = Fin real | PosInf | NegInf | NaN

text \<open>The operator \<^verbatim>\<open><\<close> on two Numbers: false as soon as one side is NaN.\<close>

fun js_lt :: "jsnum \<Rightarrow> jsnum \<Rightarrow> bool" where
  "js_lt NaN y = False"
| "js_lt x NaN = False"
| "js_lt (Fin a) (Fin b) = (a < b)"
| "js_lt (Fin a) PosInf = True"
| "js_lt (Fin a) NegInf = False"
| "js_lt PosInf y = False"
| "js_lt NegInf NegInf = False"
| "js_lt NegInf y = True"

subsection \<open>Values and objects\<close>

text \<open>
  The values the comparison meets: a market cap of the current run is a Number; a member
  of the parsed snapshot is a Number or \<^verbatim>\<open>null\<close>; reading a property an object
  does not have gives \<^verbatim>\<open>undefined\<close>. \<open>ToNumber\<close> is the coercion the relational
  operators apply to such an operand.
\<close>

datatype jsval = Undefined | Null | Number jsnum

fun ToNumber :: "jsval \<Rightarrow> jsnum" where
  "ToNumber Undefined = NaN"
| "ToNumber Null = Fin 0"
| "ToNumber (Number n) = n"

definition js_less :: "jsval \<Rightarrow> jsval \<Rightarrow> bool" where
  "js_less a b = js_lt (ToNumber a) (ToNumber b)"

text \<open>
  An object is the list of its own properties in creation order, which is the order in
  which \<^verbatim>\<open>for ... in\<close> and \<^verbatim>\<open>JSON.stringify\<close> visit string keys that are not
  array indices. The keys here are mint addresses, base-58 public keys of 32 to 44
  characters: none is an array index and none names a property of
  \<^verbatim>\<open>Object.prototype\<close>, so inherited properties are left out of the model.
  \<open>set_prop\<close> is the assignment \<^verbatim>\<open>obj[key] = v\<close>: an existing property keeps its
  place, a new one goes last. \<open>get_prop\<close> is the read \<^verbatim>\<open>obj[key]\<close>, which gives
  \<^verbatim>\<open>undefined\<close> for a key the object does not have. \<open>own_keys\<close> lists the keys
  as \<^verbatim>\<open>for ... in\<close> visits them.
\<close>

type_synonym jsobject = "(string \<times> jsval) list"

fun set_prop :: "jsobject \<Rightarrow> string \<Rightarrow> jsval \<Rightarrow> jsobject" where
  "set_prop [] key v = [(key, v)]"
| "set_prop ((k, old) # ps) key v =
     (if k = key then (k, v) # ps else (k, old) # set_prop ps key v)"

definition get_prop :: "jsobject \<Rightarrow> string \<Rightarrow> jsval" where
  "get_prop obj key = (case map_of obj key of None \<Rightarrow> Undefined | Some v \<Rightarrow> v)"

definition own_keys :: "jsobject \<Rightarrow> string list" where
  "own_keys obj = map fst obj"

text \<open>The object literal of a mapping from mint to market cap, every value a Number.\<close>

definition caps :: "(string \<times> jsnum) list \<Rightarrow> jsobject" where
  "caps m = map (\<lambda>(mint, marketCap). (mint, Number marketCap)) m"

subsection \<open>Tranches\<close>

text \<open>
  \<^verbatim>\<open>
  function getMarketCapTranche(marketCap) {
      if (marketCap < 100000) return 'unbonded-bonded';
      if (marketCap < 500000) return '0-100k';
      if (marketCap < 1000000) return '100k-500k';
      if (marketCap < 3000000) return '500k-1M';
      if (marketCap < 10000000) return '1M-3M';
      if (marketCap < 20000000) return '3M-10M';
      return '10M-20M';
  }
  \<close>
\<close>

definition getMarketCapTranche :: "jsval \<Rightarrow> string" where
  "getMarketCapTranche marketCap =
     (if js_less marketCap (Number (Fin 100000)) then ''unbonded-bonded''
      else if js_less marketCap (Number (Fin 500000)) then ''0-100k''
      else if js_less marketCap (Number (Fin 1000000)) then ''100k-500k''
      else if js_less marketCap (Number (Fin 3000000)) then ''500k-1M''
      else if js_less marketCap (Number (Fin 10000000)) then ''1M-3M''
      else if js_less marketCap (Number (Fin 20000000)) then ''3M-10M''
      else ''10M-20M'')"

subsection \<open>The snapshot file and the chat\<close>

text \<open>
  \<^verbatim>\<open>JSON.stringify\<close> and \<^verbatim>\<open>JSON.parse\<close> are taken at the level of the JSON value
  they write and read, as ECMAScript specifies them for an object of this shape: a
  property whose value is \<^verbatim>\<open>undefined\<close> is left out, a finite Number becomes a number
  literal that parses back to the same Number, NaN and the infinities become
  \<^verbatim>\<open>null\<close>. The decimal text of a number and the indentation are not modelled.
\<close>

datatype json = JNull | JNumber real

fun JSON_stringify :: "jsobject \<Rightarrow> (string \<times> json) list" where
  "JSON_stringify [] = []"
| "JSON_stringify ((k, Undefined) # ps) = JSON_stringify ps"
| "JSON_stringify ((k, Null) # ps) = (k, JNull) # JSON_stringify ps"
| "JSON_stringify ((k, Number (Fin r)) # ps) = (k, JNumber r) # JSON_stringify ps"
| "JSON_stringify ((k, Number n) # ps) = (k, JNull) # JSON_stringify ps"

fun parse_value :: "json \<Rightarrow> jsval" where
  "parse_value JNull = Null"
| "parse_value (JNumber r) = Number (Fin r)"

definition JSON_parse :: "(string \<times> json) list \<Rightarrow> jsobject" where
  "JSON_parse doc = map (\<lambda>(k, j). (k, parse_value j)) doc"

text \<open>
  A file holds either the JSON text of an object whose members are numbers or
  \<^verbatim>\<open>null\<close> (what the script itself writes) or text that \<^verbatim>\<open>JSON.parse\<close> rejects.
  The world the script acts on is the file system, a partial map from file names, and the
  chat: the messages handed to \<^verbatim>\<open>bot.sendMessage\<close>, oldest first. The message
  \<^verbatim>\<open>notifyTelegram\<close> builds is kept as its three arguments (mint, tranche, market
  cap) rather than as the formatted sentence.
\<close>

datatype file_content = JsonObject "(string \<times> json) list" | NotJson

type_synonym notification = "string \<times> string \<times> jsval"

definition notifyTelegram :: "string \<Rightarrow> string \<Rightarrow> jsval \<Rightarrow> notification" where
  "notifyTelegram mint tranche marketCap = (mint, tranche, marketCap)"

record world =
  files :: "string \<Rightarrow> file_content option"
  telegram :: "notification list"

datatype error = SyntaxError | TypeError | RequestFailed

definition PREVIOUS_MARKET_CAPS_FILE :: string where
  "PREVIOUS_MARKET_CAPS_FILE = ''tmp_data_previous.json''"

subsection \<open>Tracking market-cap changes\<close>

text \<open>
  Lines 142 to 147 of \<^verbatim>\<open>trackMarketCapChanges\<close>:
  \<^verbatim>\<open>
  let previousData = {};
  if (fs.existsSync(PREVIOUS_MARKET_CAPS_FILE)) {
      previousData = JSON.parse(fs.readFileSync(PREVIOUS_MARKET_CAPS_FILE));
  }
  \<close>
\<close>

definition loadPreviousData :: "world \<Rightarrow> error + jsobject" where
  "loadPreviousData w =
     (case files w PREVIOUS_MARKET_CAPS_FILE of
        None \<Rightarrow> Inr []
      | Some NotJson \<Rightarrow> Inl SyntaxError
      | Some (JsonObject doc) \<Rightarrow> Inr (JSON_parse doc))"

text \<open>
  The loop of lines 150 to 166, over the keys of the current object; the result is the
  sequence of \<^verbatim>\<open>notifyTelegram\<close> calls it makes.
  \<^verbatim>\<open>
  for (const mint in currentMarketCaps) {
      const currentCap = currentMarketCaps[mint];
      const previousCap = previousData[mint];
      if (previousCap === undefined) {
          notifyTelegram(mint, 'unbonded-bonded', currentCap);
      } else {
          const currentTranche = getMarketCapTranche(currentCap);
          const previousTranche = getMarketCapTranche(previousCap);
          if (currentTranche !== previousTranche) {
              notifyTelegram(mint, currentTranche, currentCap);
          }
      }
  }
  \<close>
\<close>

fun compareMarketCaps :: "string list \<Rightarrow> jsobject \<Rightarrow> jsobject \<Rightarrow> notification list" where
  "compareMarketCaps [] currentMarketCaps previousData = []"
| "compareMarketCaps (mint # mints) currentMarketCaps previousData =
     (let currentCap = get_prop currentMarketCaps mint;
          previousCap = get_prop previousData mint
      in (if previousCap = Undefined then [notifyTelegram mint ''unbonded-bonded'' currentCap]
          else (let currentTranche = getMarketCapTranche currentCap;
                    previousTranche = getMarketCapTranche previousCap
                in if currentTranche \<noteq> previousTranche
                   then [notifyTelegram mint currentTranche currentCap] else []))
         @ compareMarketCaps mints currentMarketCaps previousData)"

definition marketCapChanges :: "jsobject \<Rightarrow> jsobject \<Rightarrow> notification list" where
  "marketCapChanges currentMarketCaps previousData =
     compareMarketCaps (own_keys currentMarketCaps) currentMarketCaps previousData"

text \<open>
  Line 169:
  \<^verbatim>\<open>fs.writeFileSync(PREVIOUS_MARKET_CAPS_FILE, JSON.stringify(currentMarketCaps, null, 2));\<close>
\<close>

definition savePreviousData :: "jsobject \<Rightarrow> world \<Rightarrow> world" where
  "savePreviousData currentMarketCaps w =
     w\<lparr>files := (files w)(PREVIOUS_MARKET_CAPS_FILE \<mapsto>
          JsonObject (JSON_stringify currentMarketCaps))\<rparr>"

text \<open>
  The whole function: load, compare and notify, save. A snapshot that does not parse
  raises before anything is sent or written.
\<close>

definition trackMarketCapChanges :: "jsobject \<Rightarrow> world \<Rightarrow> error + world" where
  "trackMarketCapChanges currentMarketCaps w =
     (case loadPreviousData w of
        Inl e \<Rightarrow> Inl e
      | Inr previousData \<Rightarrow>
          Inr (savePreviousData currentMarketCaps
                 (w\<lparr>telegram := telegram w @ marketCapChanges currentMarketCaps previousData\<rparr>)))"

subsection \<open>Batches of mint addresses\<close>

text \<open>\<^verbatim>\<open>array.slice(start, stop)\<close> for indices that are not negative, and \<^verbatim>\<open>batch.join(sep)\<close>.\<close>

definition slice :: "'a list \<Rightarrow> nat \<Rightarrow> nat \<Rightarrow> 'a list" where
  "slice array start stop = take (stop - start) (drop start array)"

fun array_join :: "string list \<Rightarrow> string \<Rightarrow> string" where
  "array_join [] sep = []"
| "array_join [x] sep = x"
| "array_join (x # y # ys) sep = x @ sep @ array_join (y # ys) sep"

text \<open>
  \<^verbatim>\<open>
  function chunkArray(array, size) {
      const result = [];
      for (let i = 0; i < array.length; i += size) {
          result.push(array.slice(i, i + size));
      }
      return result;
  }
  \<close>
  With size 0 and an array that is not empty the loop never ends; the model then has no
  result (\<open>None\<close>).
\<close>

partial_function (option) chunk_loop ::
  "'a list \<Rightarrow> nat \<Rightarrow> nat \<Rightarrow> 'a list list \<Rightarrow> 'a list list option" where
  "chunk_loop array sz i result =
     (if i < length array
      then chunk_loop array sz (i + sz) (result @ [slice array i (i + sz)])
      else Some result)"

declare chunk_loop.simps [code]

definition chunkArray :: "'a list \<Rightarrow> nat \<Rightarrow> 'a list list option" where
  "chunkArray array sz = chunk_loop array sz 0 []"

subsection \<open>Prices\<close>

text \<open>
  The price service is outside the program. Of the object \<^verbatim>\<open>response.data.data\<close>
  the script reads only \<^verbatim>\<open>prices[mint]\<close>, tests it for truthiness and computes
  \<^verbatim>\<open>parseFloat(priceData) * 1e9\<close>; so the data of a reply is modelled by the
  function that gives, for a mint, \<open>None\<close> when \<^verbatim>\<open>prices[mint]\<close> is falsy (missing,
  \<^verbatim>\<open>null\<close>, empty) and otherwise the Number that product evaluates to; the
  floating-point arithmetic itself is not modelled. \<open>Nullish\<close> is a reply whose data
  is \<^verbatim>\<open>undefined\<close> or \<^verbatim>\<open>null\<close>, on which the property read raises a
  TypeError; \<open>Prices\<close> is any other data. \<open>Rejected\<close> is any failure inside the
  \<^verbatim>\<open>try\<close> block of \<^verbatim>\<open>fetchTokenPrices\<close>. The service is a function of the
  request: the list of mints in the query string.
  \<^verbatim>\<open>
  async function fetchTokenPrices(mintList) {
      try {
          const response = await axios.get(`${RAYDIUM_API_URL}?mints=${mintList}`);
          return response.data.data;
      } catch (error) {
          console.error('Error fetching prices from Raydium API:', error);
          return {};
      }
  }
  \<close>
\<close>

datatype price_data = Nullish | Prices "string \<Rightarrow> jsnum option"

datatype response = Rejected | Resolved price_data

definition fetchTokenPrices :: "(string \<Rightarrow> response) \<Rightarrow> string \<Rightarrow> price_data" where
  "fetchTokenPrices raydium mintList =
     (case raydium mintList of
        Rejected \<Rightarrow> Prices (\<lambda>mint. None)
      | Resolved prices \<Rightarrow> prices)"

subsection \<open>One run\<close>

text \<open>
  The three accumulators of \<^verbatim>\<open>getAllTokenBalances\<close> and the body of
  \<^verbatim>\<open>batch.forEach\<close> (lines 58 to 67):
  \<^verbatim>\<open>
  const priceData = prices[mint];
  if (priceData) {
      const marketCap = parseFloat(priceData) * 1e9;
      bondedCoins.push({ mint, marketCap });
      currentMarketCaps[mint] = marketCap;
  } else {
      unbondedCoins.push({ mint });
  }
  \<close>
\<close>

record coins =
  bondedCoins :: "(string \<times> jsnum) list"
  unbondedCoins :: "string list"
  currentMarketCaps :: jsobject

definition no_coins :: coins where
  "no_coins = \<lparr>bondedCoins = [], unbondedCoins = [], currentMarketCaps = []\<rparr>"

fun classify_mints :: "(string \<Rightarrow> jsnum option) \<Rightarrow> string list \<Rightarrow> coins \<Rightarrow> coins" where
  "classify_mints prices [] c = c"
| "classify_mints prices (mint # batch) c =
     classify_mints prices batch
       (case prices mint of
          Some marketCap \<Rightarrow>
            c\<lparr>bondedCoins := bondedCoins c @ [(mint, marketCap)],
              currentMarketCaps := set_prop (currentMarketCaps c) mint (Number marketCap)\<rparr>
        | None \<Rightarrow> c\<lparr>unbondedCoins := unbondedCoins c @ [mint]\<rparr>)"

text \<open>
  \<^verbatim>\<open>batch.forEach\<close> on the data \<^verbatim>\<open>fetchTokenPrices\<close> returned: on nullish data
  the read \<^verbatim>\<open>prices[mint]\<close> raises at the first mint.
\<close>

fun process_batch :: "price_data \<Rightarrow> string list \<Rightarrow> coins \<Rightarrow> error + coins" where
  "process_batch Nullish [] c = Inr c"
| "process_batch Nullish (mint # batch) c = Inl TypeError"
| "process_batch (Prices prices) batch c = Inr (classify_mints prices batch c)"

text \<open>The loop \<^verbatim>\<open>for (const batch of batches)\<close> of lines 53 to 68.\<close>

fun process_batches :: "(string \<Rightarrow> response) \<Rightarrow> string list list \<Rightarrow> coins \<Rightarrow> error + coins" where
  "process_batches raydium [] c = Inr c"
| "process_batches raydium (batch # batches) c =
     (case process_batch (fetchTokenPrices raydium (array_join batch '','')) batch c of
        Inl e \<Rightarrow> Inl e
      | Inr c' \<Rightarrow> process_batches raydium batches c')"

text \<open>
  Lines 32 to 42: the mints of the token accounts whose \<^verbatim>\<open>tokenAmount.uiAmount\<close> is
  greater than 0. An account is given by its mint and that amount (a Number or
  \<^verbatim>\<open>null\<close>).
\<close>

definition heldMints :: "(string \<times> jsval) list \<Rightarrow> string list" where
  "heldMints accounts =
     map fst (filter (\<lambda>(mint, uiAmount). js_less (Number (Fin 0)) uiAmount) accounts)"

text \<open>
  \<^verbatim>\<open>getAllTokenBalances\<close>: the body of its \<^verbatim>\<open>try\<close> block, then the function with
  its \<^verbatim>\<open>catch\<close>, which logs and returns. The first argument is the outcome of
  \<^verbatim>\<open>connection.getParsedTokenAccountsByOwner\<close>. The result is \<open>None\<close> when the run
  does not return. The two CSV exports, the sort that feeds them and the console output
  are left out: they write other files and nothing of them reaches the comparison.
\<close>

definition run_body ::
  "(error + (string \<times> jsval) list) \<Rightarrow> (string \<Rightarrow> response) \<Rightarrow> world \<Rightarrow> (error + world) option" where
  "run_body tokenAccounts raydium w =
     (case tokenAccounts of
        Inl e \<Rightarrow> Some (Inl e)
      | Inr accounts \<Rightarrow>
          (let mintAddresses = heldMints accounts in
           if 0 < length mintAddresses then
             (case chunkArray mintAddresses 99 of
                None \<Rightarrow> None
              | Some batches \<Rightarrow>
                  (case process_batches raydium batches no_coins of
                     Inl e \<Rightarrow> Some (Inl e)
                   | Inr c \<Rightarrow> Some (trackMarketCapChanges (currentMarketCaps c) w)))
           else Some (Inr w)))"

definition getAllTokenBalances ::
  "(error + (string \<times> jsval) list) \<Rightarrow> (string \<Rightarrow> response) \<Rightarrow> world \<Rightarrow> world option" where
  "getAllTokenBalances tokenAccounts raydium w =
     (case run_body tokenAccounts raydium w of
        None \<Rightarrow> None
      | Some (Inl e) \<Rightarrow> Some w
      | Some (Inr w') \<Rightarrow> Some w')"

subsection \<open>Vocabulary of the properties\<close>

text \<open>
  A mint is priced in a run when, in some batch that holds it, the \<^verbatim>\<open>if (priceData)\<close>
  of line 60 takes its first branch.
\<close>

definition priced :: "(string \<Rightarrow> response) \<Rightarrow> string list list \<Rightarrow> string \<Rightarrow> bool" where
  "priced raydium batches mint =
     list_ex (\<lambda>batch. mint \<in> set batch \<and>
                (case fetchTokenPrices raydium (array_join batch '','') of
                   Nullish \<Rightarrow> False
                 | Prices prices \<Rightarrow> prices mint \<noteq> None)) batches"

text \<open>An object all of whose values are finite Numbers.\<close>

fun is_finite :: "jsval \<Rightarrow> bool" where
  "is_finite (Number (Fin r)) = True"
| "is_finite v = False"

definition finite_caps :: "jsobject \<Rightarrow> bool" where
  "finite_caps obj = list_all (\<lambda>(mint, v). is_finite v) obj"

subsection \<open>Example inputs\<close>

text \<open>A disk without files and a silent chat.\<close>

definition first_world :: world where
  "first_world = \<lparr>files = (\<lambda>name. None), telegram = []\<rparr>"

text \<open>A disk whose snapshot file holds one token, T at 10000, as an earlier run wrote it.\<close>

definition later_world :: world where
  "later_world =
     \<lparr>files = (\<lambda>name. if name = PREVIOUS_MARKET_CAPS_FILE
                       then Some (JsonObject [(''T'', JNumber 10000)]) else None),
      telegram = []\<rparr>"

text \<open>A wallet with two token accounts of positive balance, and one whose only token is sold.\<close>

definition two_accounts :: "(string \<times> jsval) list" where
  "two_accounts = [(''A'', Number (Fin 1)), (''B'', Number (Fin 2))]"

definition sold_account :: "(string \<times> jsval) list" where
  "sold_account = [(''T'', Number (Fin 0))]"

text \<open>A price service that cannot be reached, and one that quotes token B only.\<close>

definition unreachable :: "string \<Rightarrow> response" where
  "unreachable mintList = Rejected"

definition quotes_B :: "string \<Rightarrow> response" where
  "quotes_B mintList =
     Resolved (Prices (\<lambda>mint. if mint = ''B'' then Some (Fin 2000000) else None))"

text \<open>A disk whose snapshot file holds text that does not parse.\<close>

definition corrupt_world :: world where
  "corrupt_world =
     \<lparr>files = (\<lambda>name. if name = PREVIOUS_MARKET_CAPS_FILE then Some NotJson else None),
      telegram = []\<rparr>"

text \<open>
  Two wallets of a hundred token accounts with positive balance, which make two batches:
  one holds the mint X a hundred times, the other holds X ninety-nine times and then Y.
\<close>

definition hundred_accounts :: "(string \<times> jsval) list" where
  "hundred_accounts = replicate 100 (''X'', Number (Fin 1))"

definition ninety_nine_and_Y :: "(string \<times> jsval) list" where
  "ninety_nine_and_Y = replicate 99 (''X'', Number (Fin 1)) @ [(''Y'', Number (Fin 1))]"

text \<open>
  A price service that rejects every request but the one for X alone, which it quotes;
  and one that rejects every request but the one for Y alone, which it answers without
  data.
\<close>

definition quotes_X_alone :: "string \<Rightarrow> response" where
  "quotes_X_alone mintList =
     (if mintList = ''X''
      then Resolved (Prices (\<lambda>mint. if mint = ''X'' then Some (Fin 2000000) else None))
      else Rejected)"

definition no_data_for_Y :: "string \<Rightarrow> response" where
  "no_data_for_Y mintList = (if mintList = ''Y'' then Resolved Nullish else Rejected)"

text \<open>The state after a first run that priced X at 2000000 and announced it.\<close>

definition X_world :: world where
  "X_world =
     \<lparr>files = (\<lambda>name. if name = PREVIOUS_MARKET_CAPS_FILE
                       then Some (JsonObject [(''X'', JNumber 2000000)]) else None),
      telegram = [(''X'', ''unbonded-bonded'', Number (Fin 2000000))]\<rparr>"

section \<open>Properties\<close>

subsection \<open>Reading and comparing objects\<close>

lemmas tranche_eval = getMarketCapTranche_def js_less_def

declare notifyTelegram_def [simp]

lemma get_prop_absent: "mint \<notin> set (own_keys obj) \<Longrightarrow> get_prop obj mint = Undefined"
  by (simp add: get_prop_def own_keys_def map_of_eq_None_iff[THEN iffD2])

lemma get_prop_caps: "mint \<in> set (own_keys (caps m)) \<Longrightarrow> \<exists>marketCap. get_prop (caps m) mint = Number marketCap"
proof -
  assume "mint \<in> set (own_keys (caps m))"
  then have "map_of (caps m) mint \<noteq> None"
    by (simp add: own_keys_def map_of_eq_None_iff)
  then obtain v where "map_of (caps m) mint = Some v" by auto
  moreover from this have "(mint, v) \<in> set (caps m)" by (rule map_of_SomeD)
  then obtain n where "v = Number n" by (auto simp: caps_def)
  ultimately show ?thesis by (simp add: get_prop_def)
qed

lemma compareMarketCaps_new:
  "mint \<in> set mints \<Longrightarrow> get_prop previous mint = Undefined \<Longrightarrow>
     (mint, ''unbonded-bonded'', get_prop current mint)
       \<in> set (compareMarketCaps mints current previous)"
  by (induction mints) (auto simp: Let_def)

lemma compareMarketCaps_sound:
  "n \<in> set (compareMarketCaps mints current previous) \<Longrightarrow>
     fst n \<in> set mints \<and>
     (if get_prop previous (fst n) = Undefined
      then n = (fst n, ''unbonded-bonded'', get_prop current (fst n))
      else n = (fst n, getMarketCapTranche (get_prop current (fst n)),
                 get_prop current (fst n)) \<and>
           getMarketCapTranche (get_prop current (fst n))
             \<noteq> getMarketCapTranche (get_prop previous (fst n)))"
  by (induction mints) (auto simp: Let_def split: if_splits)

lemma compareMarketCaps_same:
  "set mints \<subseteq> set (own_keys (caps m)) \<Longrightarrow> compareMarketCaps mints (caps m) (caps m) = []"
proof (induction mints)
  case Nil
  then show ?case by simp
next
  case (Cons mint mints)
  then obtain marketCap where "get_prop (caps m) mint = Number marketCap"
    using get_prop_caps[of mint m] by auto
  with Cons show ?case by (simp add: Let_def)
qed

subsection \<open>Batches and the accumulators of a run\<close>

lemma chunk_loop_returns:
  assumes "0 < sz"
  shows "\<exists>bs. chunk_loop array sz i result = Some (result @ bs) \<and> concat bs = drop i array
           \<and> (\<forall>b \<in> set bs. b \<noteq> [] \<and> length b \<le> sz)"
proof (induction "length array - i" arbitrary: i result rule: less_induct)
  case less
  show ?case
  proof (cases "i < length array")
    case False
    then show ?thesis by (subst chunk_loop.simps) simp
  next
    case True
    let ?b = "slice array i (i + sz)"
    from True assms have "length array - (i + sz) < length array - i" by arith
    from less[OF this, of "result @ [?b]"]
    obtain bs where bs: "chunk_loop array sz (i + sz) (result @ [?b]) = Some ((result @ [?b]) @ bs)"
      "concat bs = drop (i + sz) array" "\<forall>b \<in> set bs. b \<noteq> [] \<and> length b \<le> sz" by blast
    have step: "chunk_loop array sz i result = chunk_loop array sz (i + sz) (result @ [?b])"
      using True by (subst chunk_loop.simps) simp
    have b: "?b = take sz (drop i array)" by (simp add: slice_def)
    have "?b \<noteq> []" using True assms by (simp add: b)
    moreover have "length ?b \<le> sz" by (simp add: b)
    moreover have "concat (?b # bs) = drop i array"
    proof -
      have "drop (i + sz) array = drop sz (drop i array)" by (simp add: add.commute)
      with bs(2) have "concat (?b # bs) = take sz (drop i array) @ drop sz (drop i array)"
        by (simp only: concat.simps b)
      then show ?thesis by (simp only: append_take_drop_id)
    qed
    ultimately show ?thesis using step bs(1,3)
      by (intro exI[of _ "?b # bs"]) simp
  qed
qed

lemma chunkArray_returns:
  "0 < sz \<Longrightarrow> \<exists>batches. chunkArray array sz = Some batches \<and> concat batches = array
     \<and> (\<forall>b \<in> set batches. b \<noteq> [] \<and> length b \<le> sz)"
  using chunk_loop_returns[of sz array 0 "[]"] by (simp add: chunkArray_def)

lemma keys_set_prop: "fst ` set (set_prop obj key v) = insert key (fst ` set obj)"
  by (induction obj key v rule: set_prop.induct) auto

lemma values_set_prop: "set (map snd (set_prop obj key v)) \<subseteq> insert v (set (map snd obj))"
  by (induction obj key v rule: set_prop.induct) auto

lemma keys_classify_mints:
  "fst ` set (currentMarketCaps (classify_mints prices batch c)) =
     fst ` set (currentMarketCaps c) \<union> {mint \<in> set batch. prices mint \<noteq> None}"
  by (induction prices batch c rule: classify_mints.induct) (auto simp: keys_set_prop split: option.splits)

lemma unbonded_classify_mints:
  "set (unbondedCoins (classify_mints prices batch c)) =
     set (unbondedCoins c) \<union> {mint \<in> set batch. prices mint = None}"
proof (induction batch arbitrary: c)
  case Nil
  show ?case by simp
next
  case (Cons mint batch)
  show ?case
  proof (cases "prices mint")
    case None
    then have "set (unbondedCoins (classify_mints prices (mint # batch) c)) =
       set (unbondedCoins c) \<union> {mint} \<union> {m \<in> set batch. prices m = None}"
      by (simp add: Cons.IH)
    moreover from None have "{m \<in> set (mint # batch). prices m = None} = {mint} \<union> {m \<in> set batch. prices m = None}"
      by fastforce
    ultimately show ?thesis by blast
  next
    case (Some marketCap)
    then have "set (unbondedCoins (classify_mints prices (mint # batch) c)) =
       set (unbondedCoins c) \<union> {m \<in> set batch. prices m = None}"
      by (simp add: Cons.IH)
    moreover from Some have "{m \<in> set (mint # batch). prices m = None} = {m \<in> set batch. prices m = None}"
      by fastforce
    ultimately show ?thesis by blast
  qed
qed

lemma classify_mints_no_prices:
  "classify_mints (\<lambda>mint. None) batch c = c\<lparr>unbondedCoins := unbondedCoins c @ batch\<rparr>"
  by (induction batch arbitrary: c) simp_all

lemma values_classify_mints:
  "Undefined \<notin> snd ` set (currentMarketCaps c) \<Longrightarrow>
     Undefined \<notin> snd ` set (currentMarketCaps (classify_mints prices batch c))"
proof (induction prices batch c rule: classify_mints.induct)
  case (1 prices c)
  then show ?case by simp
next
  case (2 prices mint batch c)
  show ?case
  proof (cases "prices mint")
    case None
    with 2 show ?thesis by simp
  next
    case (Some marketCap)
    have "snd ` set (set_prop (currentMarketCaps c) mint (Number marketCap))
            \<subseteq> insert (Number marketCap) (snd ` set (currentMarketCaps c))"
      using values_set_prop[of "currentMarketCaps c" mint "Number marketCap"] by simp
    with 2 Some show ?thesis by auto
  qed
qed

lemma keys_JSON_stringify:
  "Undefined \<notin> snd ` set obj \<Longrightarrow> map fst (JSON_stringify obj) = map fst obj"
  by (induction obj rule: JSON_stringify.induct) auto

lemma priced_Nil: "priced raydium [] mint = False"
  by (simp add: priced_def)

lemma priced_Cons:
  "priced raydium (batch # batches) mint =
     ((mint \<in> set batch \<and>
        (case fetchTokenPrices raydium (array_join batch '','') of
           Nullish \<Rightarrow> False | Prices prices \<Rightarrow> prices mint \<noteq> None))
      \<or> priced raydium batches mint)"
  by (simp add: priced_def)

lemma process_batch_Nullish: "process_batch Nullish batch c = Inr c' \<Longrightarrow> batch = [] \<and> c' = c"
  by (cases batch) simp_all

lemma process_batch_Prices:
  "process_batch (Prices prices) batch c = Inr c' \<Longrightarrow> c' = classify_mints prices batch c"
  by simp

lemma process_batch_keys:
  assumes "process_batch d batch c = Inr c'"
  shows "fst ` set (currentMarketCaps c') = fst ` set (currentMarketCaps c) \<union>
           {mint \<in> set batch. case d of Nullish \<Rightarrow> False | Prices prices \<Rightarrow> prices mint \<noteq> None}"
proof (cases d)
  case Nullish
  with assms have "batch = [] \<and> c' = c" by (simp add: process_batch_Nullish)
  with Nullish show ?thesis by simp
next
  case (Prices prices)
  with assms have "c' = classify_mints prices batch c" by (simp add: process_batch_Prices)
  then have "fst ` set (currentMarketCaps c') =
     fst ` set (currentMarketCaps c) \<union> {mint \<in> set batch. prices mint \<noteq> None}"
    by (simp only: keys_classify_mints)
  with Prices show ?thesis by simp
qed

lemma process_batch_values:
  assumes "process_batch d batch c = Inr c'" and "Undefined \<notin> snd ` set (currentMarketCaps c)"
  shows "Undefined \<notin> snd ` set (currentMarketCaps c')"
proof (cases d)
  case Nullish
  with assms(1) have "batch = [] \<and> c' = c" by (simp add: process_batch_Nullish)
  with assms(2) show ?thesis by simp
next
  case (Prices prices)
  with assms(1) have "c' = classify_mints prices batch c" by (simp add: process_batch_Prices)
  with values_classify_mints[OF assms(2), of prices batch] show ?thesis by blast
qed

lemma process_batch_unbonded:
  assumes "process_batch d batch c = Inr c'"
  shows "set (unbondedCoins c) \<subseteq> set (unbondedCoins c')"
proof (cases d)
  case Nullish
  with assms have "batch = [] \<and> c' = c" by (simp add: process_batch_Nullish)
  then show ?thesis by simp
next
  case (Prices prices)
  with assms have "c' = classify_mints prices batch c" by (simp add: process_batch_Prices)
  then have "set (unbondedCoins c') = set (unbondedCoins c) \<union> {mint \<in> set batch. prices mint = None}"
    by (simp only: unbonded_classify_mints)
  then show ?thesis by blast
qed

lemma process_batches_step:
  assumes "process_batches raydium (batch # batches) c = Inr c'"
  obtains c1 where "process_batch (fetchTokenPrices raydium (array_join batch '','')) batch c = Inr c1"
    and "process_batches raydium batches c1 = Inr c'"
  using assms by (simp split: sum.splits)

lemma process_batches_keys:
  "process_batches raydium batches c = Inr c' \<Longrightarrow>
     fst ` set (currentMarketCaps c') =
       fst ` set (currentMarketCaps c) \<union> {mint. priced raydium batches mint}"
proof (induction batches arbitrary: c)
  case Nil
  then show ?case by (simp add: priced_Nil)
next
  case (Cons batch batches)
  from Cons.prems obtain c1 where c1: "process_batch (fetchTokenPrices raydium (array_join batch '','')) batch c = Inr c1"
    and rest: "process_batches raydium batches c1 = Inr c'"
    by (rule process_batches_step)
  have "fst ` set (currentMarketCaps c') =
          fst ` set (currentMarketCaps c1) \<union> {mint. priced raydium batches mint}"
    by (rule Cons.IH[OF rest])
  also note process_batch_keys[OF c1]
  finally show ?case by (auto simp: priced_Cons)
qed

lemma process_batches_values:
  "process_batches raydium batches c = Inr c' \<Longrightarrow> Undefined \<notin> snd ` set (currentMarketCaps c) \<Longrightarrow>
     Undefined \<notin> snd ` set (currentMarketCaps c')"
proof (induction batches arbitrary: c)
  case Nil
  then show ?case by simp
next
  case (Cons batch batches)
  from Cons.prems(1) obtain c1 where c1: "process_batch (fetchTokenPrices raydium (array_join batch '','')) batch c = Inr c1"
    and rest: "process_batches raydium batches c1 = Inr c'"
    by (rule process_batches_step)
  show ?case by (rule Cons.IH[OF rest process_batch_values[OF c1 Cons.prems(2)]])
qed

lemma process_batches_unbonded:
  "process_batches raydium batches c = Inr c' \<Longrightarrow> set (unbondedCoins c) \<subseteq> set (unbondedCoins c')"
proof (induction batches arbitrary: c)
  case Nil
  then show ?case by simp
next
  case (Cons batch batches)
  from Cons.prems(1) obtain c1 where c1: "process_batch (fetchTokenPrices raydium (array_join batch '','')) batch c = Inr c1"
    and rest: "process_batches raydium batches c1 = Inr c'"
    by (rule process_batches_step)
  from process_batch_unbonded[OF c1] Cons.IH[OF rest] show ?case by (rule subset_trans)
qed


lemma fetchTokenPrices_data:
  "raydium mintList \<noteq> Resolved Nullish \<Longrightarrow> \<exists>prices. fetchTokenPrices raydium mintList = Prices prices"
proof (cases "raydium mintList")
  case Rejected
  then show ?thesis by (simp add: fetchTokenPrices_def)
next
  case (Resolved d)
  assume "raydium mintList \<noteq> Resolved Nullish"
  with Resolved have "d \<noteq> Nullish" by simp
  then obtain prices where "d = Prices prices" by (cases d) simp_all
  with Resolved show ?thesis by (simp add: fetchTokenPrices_def)
qed

lemma process_batches_returns:
  "(\<forall>batch \<in> set batches. raydium (array_join batch '','') \<noteq> Resolved Nullish) \<Longrightarrow>
     \<exists>c'. process_batches raydium batches c = Inr c'"
proof (induction batches arbitrary: c)
  case Nil
  show ?case by simp
next
  case (Cons batch batches)
  then have "raydium (array_join batch '','') \<noteq> Resolved Nullish" by simp
  then obtain prices where p: "fetchTokenPrices raydium (array_join batch '','') = Prices prices"
    using fetchTokenPrices_data by blast
  from Cons.prems have "\<forall>b \<in> set batches. raydium (array_join b '','') \<noteq> Resolved Nullish" by simp
  from Cons.IH[OF this, of "classify_mints prices batch c"] p show ?case by simp
qed

lemma rejected_batch_unbonded:
  "process_batches raydium batches c = Inr c' \<Longrightarrow> batch \<in> set batches \<Longrightarrow>
     raydium (array_join batch '','') = Rejected \<Longrightarrow> set batch \<subseteq> set (unbondedCoins c')"
proof (induction batches arbitrary: c)
  case Nil
  then show ?case by simp
next
  case (Cons b batches)
  from Cons.prems(1) obtain c1 where c1: "process_batch (fetchTokenPrices raydium (array_join b '','')) b c = Inr c1"
    and rest: "process_batches raydium batches c1 = Inr c'"
    by (rule process_batches_step)
  show ?case
  proof (cases "batch = b")
    case True
    with Cons.prems(3) have "fetchTokenPrices raydium (array_join b '','') = Prices (\<lambda>mint. None)"
      by (simp add: fetchTokenPrices_def)
    with c1 have "c1 = classify_mints (\<lambda>mint. None) b c" by simp
    then have "unbondedCoins c1 = unbondedCoins c @ b" by (simp add: classify_mints_no_prices)
    then have "set b \<subseteq> set (unbondedCoins c1)" by simp
    with process_batches_unbonded[OF rest] True show ?thesis by blast
  next
    case False
    with Cons.prems(2) have "batch \<in> set batches" by simp
    from Cons.IH[OF rest this Cons.prems(3)] show ?thesis .
  qed
qed

lemma loadPreviousData_returns:
  "files w PREVIOUS_MARKET_CAPS_FILE \<noteq> Some NotJson \<Longrightarrow> \<exists>previous. loadPreviousData w = Inr previous"
  by (simp add: loadPreviousData_def split: option.splits file_content.splits)

lemma files_savePreviousData:
  "files (savePreviousData obj w) PREVIOUS_MARKET_CAPS_FILE = Some (JsonObject (JSON_stringify obj))"
  by (simp add: savePreviousData_def)

lemma telegram_savePreviousData: "telegram (savePreviousData obj w) = telegram w"
  by (simp add: savePreviousData_def)

lemma run_completes:
  assumes "chunkArray (heldMints accounts) 99 = Some batches" and "heldMints accounts \<noteq> []"
    and "process_batches raydium batches no_coins = Inr c" and "loadPreviousData w = Inr previous"
  shows "getAllTokenBalances (Inr accounts) raydium w =
           Some (savePreviousData (currentMarketCaps c)
                   (w\<lparr>telegram := telegram w @ marketCapChanges (currentMarketCaps c) previous\<rparr>))"
  using assms by (simp add: getAllTokenBalances_def run_body_def trackMarketCapChanges_def Let_def)

lemma no_coins_values: "Undefined \<notin> snd ` set (currentMarketCaps no_coins)"
  by (simp add: no_coins_def)

lemma snapshot_keys:
  assumes "process_batches raydium batches no_coins = Inr c"
  shows "set (map fst (JSON_stringify (currentMarketCaps c))) = {mint. priced raydium batches mint}"
proof -
  have "Undefined \<notin> snd ` set (currentMarketCaps c)"
    by (rule process_batches_values[OF assms no_coins_values])
  then have "map fst (JSON_stringify (currentMarketCaps c)) = map fst (currentMarketCaps c)"
    by (rule keys_JSON_stringify)
  moreover have "fst ` set (currentMarketCaps c) = {mint. priced raydium batches mint}"
    using process_batches_keys[OF assms] by (simp add: no_coins_def)
  ultimately show ?thesis by simp
qed

subsection \<open>Saving, loading and the example wallet\<close>

lemma JSON_round_trip: "finite_caps obj \<Longrightarrow> JSON_parse (JSON_stringify obj) = obj"
  by (induction obj rule: JSON_stringify.induct) (simp_all add: finite_caps_def JSON_parse_def)

lemma loadPreviousData_savePreviousData:
  "loadPreviousData (savePreviousData obj w) = Inr (JSON_parse (JSON_stringify obj))"
  by (simp add: loadPreviousData_def savePreviousData_def)

lemma rejected_not_priced:
  assumes "\<forall>b \<in> set batches. mint \<in> set b \<longrightarrow> raydium (array_join b '','') = Rejected"
  shows "\<not> priced raydium batches mint"
proof
  assume "priced raydium batches mint"
  then obtain b where b: "b \<in> set batches" "mint \<in> set b"
    and p: "case fetchTokenPrices raydium (array_join b '','') of
              Nullish \<Rightarrow> False | Prices prices \<Rightarrow> prices mint \<noteq> None"
    unfolding priced_def list_ex_iff by blast
  from assms b have "fetchTokenPrices raydium (array_join b '','') = Prices (\<lambda>mint. None)"
    by (simp add: fetchTokenPrices_def)
  with p show False by simp
qed

lemma distinct_batches:
  assumes "distinct (concat batches)" and "batch \<in> set batches" and "b \<in> set batches"
    and "mint \<in> set batch" and "mint \<in> set b"
  shows "b = batch"
proof (rule ccontr)
  assume "b \<noteq> batch"
  with assms(1-3) have "set b \<inter> set batch = {}"
    unfolding distinct_concat_iff by blast
  with assms(4,5) show False by blast
qed

lemma two_accounts_held: "heldMints two_accounts = [''A'', ''B'']"
  by (simp add: heldMints_def two_accounts_def js_less_def)

lemma two_accounts_batches: "chunkArray [''A'', ''B''] 99 = Some [[''A'', ''B'']]"
  by (simp add: chunkArray_def chunk_loop.simps slice_def)

lemma hundred_accounts_held: "heldMints hundred_accounts = replicate 100 ''X''"
  by (simp add: heldMints_def hundred_accounts_def js_less_def)

lemma hundred_accounts_batches:
  "chunkArray (replicate 100 ''X'') 99 = Some [replicate 99 ''X'', [''X'']]"
  by (simp add: chunkArray_def chunk_loop.simps slice_def)

lemma ninety_nine_and_Y_held: "heldMints ninety_nine_and_Y = replicate 99 ''X'' @ [''Y'']"
  by (simp add: heldMints_def ninety_nine_and_Y_def js_less_def)

lemma ninety_nine_and_Y_batches:
  "chunkArray (replicate 99 ''X'' @ [''Y'']) 99 = Some [replicate 99 ''X'', [''Y'']]"
  by (simp add: chunkArray_def chunk_loop.simps slice_def)

lemma first_batch_request:
  "array_join (replicate 99 ''X'') '','' \<noteq> ''X''"
  "array_join (replicate 99 ''X'') '','' \<noteq> ''Y''"
  by (simp_all add: eval_nat_numeral)

subsection \<open>The tranche of a market cap\<close>

text \<open>
  Claim C1. \<open>getMarketCapTranche\<close> is a function of the market cap alone, defined on
  every non-negative cap, and each threshold is the exclusive upper bound of the bracket
  below it: 99999 is in \<open>unbonded-bonded\<close>, 100000 and 499999 are in \<open>0-100k\<close>, 500000 is
  in \<open>100k-500k\<close>, and 20000000, 50000000 and every other cap from 20000000 upwards are
  in the last bracket \<open>10M-20M\<close>. The six intervals in between are stated for an arbitrary
  finite cap \<open>r\<close>.
\<close>

theorem getMarketCapTranche_thresholds:
  "getMarketCapTranche (Number (Fin 99999)) = ''unbonded-bonded'' \<and>
   getMarketCapTranche (Number (Fin 100000)) = ''0-100k'' \<and>
   getMarketCapTranche (Number (Fin 499999)) = ''0-100k'' \<and>
   getMarketCapTranche (Number (Fin 500000)) = ''100k-500k'' \<and>
   getMarketCapTranche (Number (Fin 20000000)) = ''10M-20M'' \<and>
   getMarketCapTranche (Number (Fin 50000000)) = ''10M-20M'' \<and>
   (0 \<le> r \<and> r < 100000 \<longrightarrow> getMarketCapTranche (Number (Fin r)) = ''unbonded-bonded'') \<and>
   (100000 \<le> r \<and> r < 500000 \<longrightarrow> getMarketCapTranche (Number (Fin r)) = ''0-100k'') \<and>
   (500000 \<le> r \<and> r < 1000000 \<longrightarrow> getMarketCapTranche (Number (Fin r)) = ''100k-500k'') \<and>
   (1000000 \<le> r \<and> r < 3000000 \<longrightarrow> getMarketCapTranche (Number (Fin r)) = ''500k-1M'') \<and>
   (3000000 \<le> r \<and> r < 10000000 \<longrightarrow> getMarketCapTranche (Number (Fin r)) = ''1M-3M'') \<and>
   (10000000 \<le> r \<and> r < 20000000 \<longrightarrow> getMarketCapTranche (Number (Fin r)) = ''3M-10M'') \<and>
   (20000000 \<le> r \<longrightarrow> getMarketCapTranche (Number (Fin r)) = ''10M-20M'')"
  by (simp add: tranche_eval)

theorem getMarketCapTranche_thresholds_witness:
  "(20000000::real) \<le> 30000000 \<and> getMarketCapTranche (Number (Fin 30000000)) = ''10M-20M''"
proof -
  have h: "(20000000::real) \<le> 30000000" by simp
  have "20000000 \<le> (30000000::real) \<longrightarrow>
          getMarketCapTranche (Number (Fin 30000000)) = ''10M-20M''"
    using getMarketCapTranche_thresholds[of 30000000] by blast
  with h show ?thesis by blast
qed

text \<open>
  Claim C10. The function is defined on every Number, and every market cap that is less
  than 100000 is in \<open>unbonded-bonded\<close>: stated for any value the comparison accepts as
  less than 100000, and in particular for every negative finite cap and for \<open>-Infinity\<close>.
\<close>

theorem getMarketCapTranche_below_100000:
  "(js_less marketCap (Number (Fin 100000)) \<longrightarrow>
      getMarketCapTranche marketCap = ''unbonded-bonded'') \<and>
   (r < 0 \<longrightarrow> getMarketCapTranche (Number (Fin r)) = ''unbonded-bonded'') \<and>
   getMarketCapTranche (Number NegInf) = ''unbonded-bonded''"
  by (simp add: tranche_eval)

theorem getMarketCapTranche_below_100000_witness:
  "js_less (Number (Fin (- 5))) (Number (Fin 100000)) \<and> (- 5 :: real) < 0 \<and>
   getMarketCapTranche (Number (Fin (- 5))) = ''unbonded-bonded''"
proof -
  have h: "js_less (Number (Fin (- 5))) (Number (Fin 100000))" "(- 5 :: real) < 0"
    by (simp_all add: js_less_def)
  from getMarketCapTranche_below_100000[of "Number (Fin (- 5))" "- 5"] h
  show ?thesis by blast
qed

subsection \<open>The comparison of two mappings\<close>

text \<open>
  Claim C2, as amended. With the current mapping \<open>{T: 600000}\<close> and the previous mapping
  \<open>{T: 400000}\<close> the comparison sends exactly one notification, for T, with the tranche
  \<open>100k-500k\<close> (the label \<open>getMarketCapTranche\<close> gives 600000) and the market cap 600000;
  with \<open>{T: 450000}\<close> against \<open>{T: 420000}\<close> it sends none.
\<close>

theorem tranche_crossing_notified:
  "marketCapChanges (caps [(mint, Fin 600000)]) (caps [(mint, Fin 400000)])
     = [(mint, ''100k-500k'', Number (Fin 600000))] \<and>
   marketCapChanges (caps [(mint, Fin 450000)]) (caps [(mint, Fin 420000)]) = []"
  by (simp add: marketCapChanges_def caps_def own_keys_def get_prop_def tranche_eval)

text \<open>
  Claim C2 as first stated asks for the tranche \<open>500k-1M\<close> in that notification; the
  comparison does not send it.
\<close>

theorem tranche_crossing_label_counterexample:
  "marketCapChanges (caps [(''T'', Fin 600000)]) (caps [(''T'', Fin 400000)])
     \<noteq> [(''T'', ''500k-1M'', Number (Fin 600000))]"
  by (simp add: marketCapChanges_def caps_def own_keys_def get_prop_def tranche_eval)

text \<open>
  Claim C3. A mint that is a key of the current mapping and not of the previous one is
  notified with the tranche \<open>unbonded-bonded\<close> and its current market cap, and no other
  notification is sent for it, whatever tranche its cap has. In particular the comparison
  of \<open>{T: 250000}\<close> with the empty mapping sends exactly \<open>(T, unbonded-bonded, 250000)\<close>,
  although the tranche of 250000 is \<open>0-100k\<close>.
\<close>

theorem new_token_notified:
  "(mint \<in> set (own_keys current) \<and> mint \<notin> set (own_keys previous) \<longrightarrow>
      (mint, ''unbonded-bonded'', get_prop current mint) \<in> set (marketCapChanges current previous) \<and>
      (\<forall>n \<in> set (marketCapChanges current previous).
         fst n = mint \<longrightarrow> n = (mint, ''unbonded-bonded'', get_prop current mint))) \<and>
   marketCapChanges (caps [(T, Fin 250000)]) [] = [(T, ''unbonded-bonded'', Number (Fin 250000))] \<and>
   getMarketCapTranche (Number (Fin 250000)) = ''0-100k''"
proof (intro conjI impI ballI)
  fix n
  assume a: "mint \<in> set (own_keys current) \<and> mint \<notin> set (own_keys previous)"
    and n: "n \<in> set (marketCapChanges current previous)" "fst n = mint"
  from a have "get_prop previous mint = Undefined" by (simp add: get_prop_absent)
  with compareMarketCaps_sound[OF n(1)[unfolded marketCapChanges_def]] n(2)
  show "n = (mint, ''unbonded-bonded'', get_prop current mint)" by simp
next
  assume a: "mint \<in> set (own_keys current) \<and> mint \<notin> set (own_keys previous)"
  then show "(mint, ''unbonded-bonded'', get_prop current mint)
         \<in> set (marketCapChanges current previous)"
    by (simp add: marketCapChanges_def compareMarketCaps_new get_prop_absent)
next
  show "marketCapChanges (caps [(T, Fin 250000)]) [] = [(T, ''unbonded-bonded'', Number (Fin 250000))]"
    by (simp add: marketCapChanges_def caps_def own_keys_def get_prop_def)
next
  show "getMarketCapTranche (Number (Fin 250000)) = ''0-100k''" by (simp add: tranche_eval)
qed

theorem new_token_notified_witness:
  "''B'' \<in> set (own_keys (caps [(''A'', Fin 50000), (''B'', Fin 2000000)])) \<and>
   ''B'' \<notin> set (own_keys (caps [(''A'', Fin 40000)])) \<and>
   (''B'', ''unbonded-bonded'', Number (Fin 2000000))
     \<in> set (marketCapChanges (caps [(''A'', Fin 50000), (''B'', Fin 2000000)]) (caps [(''A'', Fin 40000)]))"
proof -
  have h: "''B'' \<in> set (own_keys (caps [(''A'', Fin 50000), (''B'', Fin 2000000)])) \<and>
           ''B'' \<notin> set (own_keys (caps [(''A'', Fin 40000)]))"
    by (simp add: own_keys_def caps_def)
  have g: "get_prop (caps [(''A'', Fin 50000), (''B'', Fin 2000000)]) ''B'' = Number (Fin 2000000)"
    by (simp add: get_prop_def caps_def)
  from new_token_notified[of "''B''" "caps [(''A'', Fin 50000), (''B'', Fin 2000000)]"
      "caps [(''A'', Fin 40000)]"] h
  have "(''B'', ''unbonded-bonded'', get_prop (caps [(''A'', Fin 50000), (''B'', Fin 2000000)]) ''B'')
     \<in> set (marketCapChanges (caps [(''A'', Fin 50000), (''B'', Fin 2000000)]) (caps [(''A'', Fin 40000)]))"
    by blast
  with h g show ?thesis by simp
qed

text \<open>
  Claim C4. Comparing a mapping from mints to market caps with itself sends no
  notification, for every such mapping.
\<close>

theorem unchanged_mapping_silent: "marketCapChanges (caps m) (caps m) = []"
  by (simp add: marketCapChanges_def compareMarketCaps_same)

text \<open>
  Claim C5. The comparison visits the keys of the current mapping only: every
  notification is about one of them, so a mint that is a key of the previous mapping
  alone is never notified. With an empty current mapping nothing is sent, whatever the
  previous mapping is, for instance \<open>{T: 10000}\<close>.
\<close>

theorem dropped_token_silent:
  "marketCapChanges [] previous = [] \<and>
   (\<forall>n \<in> set (marketCapChanges current previous). fst n \<in> set (own_keys current)) \<and>
   (mint \<notin> set (own_keys current) \<longrightarrow>
      (\<forall>n \<in> set (marketCapChanges current previous). fst n \<noteq> mint)) \<and>
   marketCapChanges [] (caps [(T, Fin 10000)]) = []"
  using compareMarketCaps_sound[of _ "own_keys current" current previous]
  by (auto simp: marketCapChanges_def own_keys_def)

theorem dropped_token_silent_witness:
  "''T'' \<notin> set (own_keys (caps [(''A'', Fin 600000)])) \<and>
   (''T'', ''unbonded-bonded'', Number (Fin 10000))
      \<notin> set (marketCapChanges (caps [(''A'', Fin 600000)]) (caps [(''A'', Fin 400000), (''T'', Fin 10000)]))"
proof -
  have h: "''T'' \<notin> set (own_keys (caps [(''A'', Fin 600000)]))"
    by (simp add: own_keys_def caps_def)
  from dropped_token_silent[of "caps [(''A'', Fin 400000), (''T'', Fin 10000)]" "caps [(''A'', Fin 600000)]" "''T''"] h
  have "\<forall>n \<in> set (marketCapChanges (caps [(''A'', Fin 600000)]) (caps [(''A'', Fin 400000), (''T'', Fin 10000)])).
          fst n \<noteq> ''T''"
    by blast
  then have "(''T'', ''unbonded-bonded'', Number (Fin 10000))
      \<notin> set (marketCapChanges (caps [(''A'', Fin 600000)]) (caps [(''A'', Fin 400000), (''T'', Fin 10000)]))"
    by fastforce
  with h show ?thesis by blast
qed

subsection \<open>The snapshot store\<close>

text \<open>
  Claim C7. Saving a mapping and loading it again gives the mapping back, for every
  mapping whose market caps are finite Numbers, the empty mapping included. The write and
  the read use the same file, the file exists after the write, and what
  \<^verbatim>\<open>JSON.stringify\<close> writes for such a mapping \<^verbatim>\<open>JSON.parse\<close> reads back
  unchanged.
\<close>

theorem snapshot_round_trip:
  "(finite_caps m \<longrightarrow> loadPreviousData (savePreviousData m w) = Inr m) \<and>
   loadPreviousData (savePreviousData [] w) = Inr []"
proof (intro conjI impI)
  assume "finite_caps m"
  then show "loadPreviousData (savePreviousData m w) = Inr m"
    by (simp add: loadPreviousData_savePreviousData JSON_round_trip)
next
  show "loadPreviousData (savePreviousData [] w) = Inr []"
    by (simp add: loadPreviousData_savePreviousData JSON_parse_def)
qed

theorem snapshot_round_trip_witness:
  "finite_caps (caps [(''A'', Fin 50000), (''B'', Fin 2000000)]) \<and>
   loadPreviousData (savePreviousData (caps [(''A'', Fin 50000), (''B'', Fin 2000000)]) later_world)
     = Inr [(''A'', Number (Fin 50000)), (''B'', Number (Fin 2000000))]"
proof -
  have h: "finite_caps (caps [(''A'', Fin 50000), (''B'', Fin 2000000)])"
    by (simp add: finite_caps_def caps_def)
  have c: "caps [(''A'', Fin 50000), (''B'', Fin 2000000)]
             = [(''A'', Number (Fin 50000)), (''B'', Number (Fin 2000000))]"
    by (simp add: caps_def)
  from snapshot_round_trip[of "caps [(''A'', Fin 50000), (''B'', Fin 2000000)]" later_world] h
  have "loadPreviousData (savePreviousData (caps [(''A'', Fin 50000), (''B'', Fin 2000000)]) later_world)
          = Inr (caps [(''A'', Fin 50000), (''B'', Fin 2000000)])"
    by blast
  with h c show ?thesis by simp
qed

text \<open>
  The finiteness matters: a market cap that is NaN or an infinity is written as
  \<^verbatim>\<open>null\<close> and read back as \<^verbatim>\<open>null\<close>.
\<close>

lemma nonfinite_cap_saved_as_null:
  "loadPreviousData (savePreviousData (caps [(mint, NaN)]) w) = Inr [(mint, Null)]"
  by (simp add: loadPreviousData_savePreviousData JSON_parse_def caps_def)

text \<open>
  Claim C8. When the snapshot file does not exist, loading gives the empty mapping and
  raises nothing, and \<^verbatim>\<open>trackMarketCapChanges\<close> compares the current mapping with the
  empty one, sends the result and writes the first snapshot.
\<close>

theorem first_run_loads_empty:
  "files w PREVIOUS_MARKET_CAPS_FILE = None \<longrightarrow>
     loadPreviousData w = Inr [] \<and>
     trackMarketCapChanges current w =
       Inr (savePreviousData current (w\<lparr>telegram := telegram w @ marketCapChanges current []\<rparr>))"
  by (simp add: loadPreviousData_def trackMarketCapChanges_def)

theorem first_run_loads_empty_witness:
  "files first_world PREVIOUS_MARKET_CAPS_FILE = None \<and>
   loadPreviousData first_world = Inr [] \<and>
   (\<exists>w. trackMarketCapChanges (caps [(''A'', Fin 50000), (''B'', Fin 2000000)]) first_world = Inr w \<and>
        telegram w = [(''A'', ''unbonded-bonded'', Number (Fin 50000)),
                      (''B'', ''unbonded-bonded'', Number (Fin 2000000))] \<and>
        files w PREVIOUS_MARKET_CAPS_FILE =
          Some (JsonObject [(''A'', JNumber 50000), (''B'', JNumber 2000000)]))"
proof -
  have h: "files first_world PREVIOUS_MARKET_CAPS_FILE = None" by (simp add: first_world_def)
  let ?cur = "caps [(''A'', Fin 50000), (''B'', Fin 2000000)]"
  from first_run_loads_empty[of first_world ?cur] h
  have l: "loadPreviousData first_world = Inr []"
    and t: "trackMarketCapChanges ?cur first_world =
       Inr (savePreviousData ?cur (first_world\<lparr>telegram := telegram first_world @ marketCapChanges ?cur []\<rparr>))"
    by blast+
  have m: "marketCapChanges ?cur [] = [(''A'', ''unbonded-bonded'', Number (Fin 50000)),
                      (''B'', ''unbonded-bonded'', Number (Fin 2000000))]"
    by (simp add: marketCapChanges_def caps_def own_keys_def get_prop_def)
  have s: "JSON_stringify ?cur = [(''A'', JNumber 50000), (''B'', JNumber 2000000)]"
    by (simp add: caps_def)
  show ?thesis using h l t m s
    by (simp add: savePreviousData_def first_world_def)
qed

subsection \<open>A whole run\<close>

text \<open>
  Claim C6, as amended. A run that finds no token with a positive balance leaves the
  snapshot file as it was. A run that finds one cuts the mints into batches and, unless
  it is cut short by a price reply without data or by a snapshot file that does not
  parse, returns with the snapshot file overwritten by the serialised current mapping:
  that content is computed from this run's replies alone, and its keys are exactly the
  mints priced in this run, so an unpriced mint is never written and a key of the old
  snapshot that is not priced now is gone.
\<close>

theorem run_overwrites_snapshot:
  "(heldMints accounts = [] \<longrightarrow> getAllTokenBalances (Inr accounts) raydium w = Some w) \<and>
   (heldMints accounts \<noteq> [] \<longrightarrow>
     (\<exists>batches. chunkArray (heldMints accounts) 99 = Some batches \<and>
           ((\<forall>batch \<in> set batches. raydium (array_join batch '','') \<noteq> Resolved Nullish) \<and>
            files w PREVIOUS_MARKET_CAPS_FILE \<noteq> Some NotJson \<longrightarrow>
            (\<exists>c w'. process_batches raydium batches no_coins = Inr c \<and>
                    getAllTokenBalances (Inr accounts) raydium w = Some w' \<and>
                    files w' PREVIOUS_MARKET_CAPS_FILE
                      = Some (JsonObject (JSON_stringify (currentMarketCaps c))) \<and>
                    set (map fst (JSON_stringify (currentMarketCaps c)))
                      = {mint. priced raydium batches mint}))))"
proof (intro conjI impI)
  assume "heldMints accounts = []"
  then show "getAllTokenBalances (Inr accounts) raydium w = Some w"
    by (simp add: getAllTokenBalances_def run_body_def)
next
  assume held: "heldMints accounts \<noteq> []"
  obtain batches where ch: "chunkArray (heldMints accounts) 99 = Some batches"
    using chunkArray_returns[of 99 "heldMints accounts"] by auto
  have "\<exists>c w'. process_batches raydium batches no_coins = Inr c \<and>
                    getAllTokenBalances (Inr accounts) raydium w = Some w' \<and>
                    files w' PREVIOUS_MARKET_CAPS_FILE
                      = Some (JsonObject (JSON_stringify (currentMarketCaps c))) \<and>
                    set (map fst (JSON_stringify (currentMarketCaps c)))
                      = {mint. priced raydium batches mint}"
    if ok: "\<forall>batch \<in> set batches. raydium (array_join batch '','') \<noteq> Resolved Nullish"
      and parses: "files w PREVIOUS_MARKET_CAPS_FILE \<noteq> Some NotJson"
  proof -
    from process_batches_returns[OF ok] obtain c
      where c: "process_batches raydium batches no_coins = Inr c" by blast
    from loadPreviousData_returns[OF parses] obtain previous
      where p: "loadPreviousData w = Inr previous" by blast
    note run = run_completes[OF ch held c p]
    show ?thesis
      using c run snapshot_keys[OF c] by (simp add: files_savePreviousData)
  qed
  with ch show "\<exists>batches. chunkArray (heldMints accounts) 99 = Some batches \<and>
           ((\<forall>batch \<in> set batches. raydium (array_join batch '','') \<noteq> Resolved Nullish) \<and>
            files w PREVIOUS_MARKET_CAPS_FILE \<noteq> Some NotJson \<longrightarrow>
            (\<exists>c w'. process_batches raydium batches no_coins = Inr c \<and>
                    getAllTokenBalances (Inr accounts) raydium w = Some w' \<and>
                    files w' PREVIOUS_MARKET_CAPS_FILE
                      = Some (JsonObject (JSON_stringify (currentMarketCaps c))) \<and>
                    set (map fst (JSON_stringify (currentMarketCaps c)))
                      = {mint. priced raydium batches mint}))"
    by blast
qed

theorem run_overwrites_snapshot_witness:
  "heldMints two_accounts \<noteq> [] \<and>
   chunkArray (heldMints two_accounts) 99 = Some [[''A'', ''B'']] \<and>
   quotes_B (array_join [''A'', ''B''] '','') \<noteq> Resolved Nullish \<and>
   files later_world PREVIOUS_MARKET_CAPS_FILE \<noteq> Some NotJson \<and>
   (\<exists>w'. getAllTokenBalances (Inr two_accounts) quotes_B later_world = Some w' \<and>
         files w' PREVIOUS_MARKET_CAPS_FILE = Some (JsonObject [(''B'', JNumber 2000000)])) \<and>
   heldMints [] = [] \<and>
   getAllTokenBalances (Inr []) quotes_B later_world = Some later_world"
proof -
  have idle: "heldMints [] = []" by (simp add: heldMints_def)
  from run_overwrites_snapshot[of "[]" quotes_B later_world] idle
  have idle_run: "getAllTokenBalances (Inr []) quotes_B later_world = Some later_world"
    by blast
  have held: "heldMints two_accounts \<noteq> []" by (simp add: two_accounts_held)
  have ch: "chunkArray (heldMints two_accounts) 99 = Some [[''A'', ''B'']]"
    by (simp only: two_accounts_held two_accounts_batches)
  have ok: "quotes_B (array_join [''A'', ''B''] '','') \<noteq> Resolved Nullish"
    by (simp add: quotes_B_def)
  have parses: "files later_world PREVIOUS_MARKET_CAPS_FILE \<noteq> Some NotJson"
    by (simp add: later_world_def)
  from run_overwrites_snapshot[of two_accounts quotes_B later_world] held
  obtain batches where b: "chunkArray (heldMints two_accounts) 99 = Some batches"
    and imp: "(\<forall>batch \<in> set batches. quotes_B (array_join batch '','') \<noteq> Resolved Nullish) \<and>
            files later_world PREVIOUS_MARKET_CAPS_FILE \<noteq> Some NotJson \<longrightarrow>
            (\<exists>c w'. process_batches quotes_B batches no_coins = Inr c \<and>
                    getAllTokenBalances (Inr two_accounts) quotes_B later_world = Some w' \<and>
                    files w' PREVIOUS_MARKET_CAPS_FILE
                      = Some (JsonObject (JSON_stringify (currentMarketCaps c))) \<and>
                    set (map fst (JSON_stringify (currentMarketCaps c)))
                      = {mint. priced quotes_B batches mint})"
    by blast
  from b ch have eq: "batches = [[''A'', ''B'']]" by simp
  from ok have "\<forall>batch \<in> set batches. quotes_B (array_join batch '','') \<noteq> Resolved Nullish"
    by (simp add: eq)
  with imp parses obtain c w' where c: "process_batches quotes_B batches no_coins = Inr c"
    and run: "getAllTokenBalances (Inr two_accounts) quotes_B later_world = Some w'"
    and f: "files w' PREVIOUS_MARKET_CAPS_FILE
                      = Some (JsonObject (JSON_stringify (currentMarketCaps c)))"
    by blast
  have "process_batches quotes_B [[''A'', ''B'']] no_coins =
          Inr \<lparr>bondedCoins = [(''B'', Fin 2000000)], unbondedCoins = [''A''],
               currentMarketCaps = [(''B'', Number (Fin 2000000))]\<rparr>"
    by (simp add: fetchTokenPrices_def quotes_B_def no_coins_def)
  with c have "currentMarketCaps c = [(''B'', Number (Fin 2000000))]"
    by (simp add: eq)
  with f have "files w' PREVIOUS_MARKET_CAPS_FILE = Some (JsonObject [(''B'', JNumber 2000000)])"
    by simp
  with run held ch ok parses idle idle_run show ?thesis by blast
qed

text \<open>
  Claim C6 as first stated speaks of every run. In a run whose only token account has
  balance 0, no token is priced, and the snapshot written by an earlier run still holds
  the key T afterwards.
\<close>

theorem idle_run_keeps_snapshot_counterexample:
  "heldMints sold_account = [] \<and>
   getAllTokenBalances (Inr sold_account) unreachable later_world = Some later_world \<and>
   files later_world PREVIOUS_MARKET_CAPS_FILE = Some (JsonObject [(''T'', JNumber 10000)])"
  by (simp add: heldMints_def sold_account_def js_less_def getAllTokenBalances_def run_body_def
        later_world_def)

text \<open>
  Claim C9, as amended. When the request for a batch is rejected,
  \<^verbatim>\<open>fetchTokenPrices\<close> returns a mapping without prices, and every mint of the batch
  is pushed to \<^verbatim>\<open>unbondedCoins\<close> while nothing is raised. Provided no other reply
  lacks its data and the snapshot file, if there is one, parses, the run goes on: it
  returns, the comparison is made and sent, and the snapshot is written. A mint of the
  rejected batch is not a key of that snapshot when every batch that holds it was
  rejected, which is the case for all mints of the batch when no mint is held in two
  token accounts.
\<close>

theorem rejected_batch_degrades:
  assumes "heldMints accounts \<noteq> []"
  shows "\<exists>batches. chunkArray (heldMints accounts) 99 = Some batches \<and>
     (\<forall>batch \<in> set batches. raydium (array_join batch '','') = Rejected \<longrightarrow>
        fetchTokenPrices raydium (array_join batch '','') = Prices (\<lambda>mint. None) \<and>
        (\<forall>c. process_batch (fetchTokenPrices raydium (array_join batch '','')) batch c
               = Inr (c\<lparr>unbondedCoins := unbondedCoins c @ batch\<rparr>)) \<and>
        ((\<forall>b \<in> set batches. raydium (array_join b '','') \<noteq> Resolved Nullish) \<and>
         files w PREVIOUS_MARKET_CAPS_FILE \<noteq> Some NotJson \<longrightarrow>
           (\<exists>c previous w'. process_batches raydium batches no_coins = Inr c \<and>
              set batch \<subseteq> set (unbondedCoins c) \<and>
              loadPreviousData w = Inr previous \<and>
              getAllTokenBalances (Inr accounts) raydium w = Some w' \<and>
              telegram w' = telegram w @ marketCapChanges (currentMarketCaps c) previous \<and>
              files w' PREVIOUS_MARKET_CAPS_FILE
                = Some (JsonObject (JSON_stringify (currentMarketCaps c))) \<and>
              (\<forall>mint \<in> set batch.
                  (\<forall>b \<in> set batches. mint \<in> set b \<longrightarrow> raydium (array_join b '','') = Rejected) \<longrightarrow>
                  mint \<notin> set (map fst (JSON_stringify (currentMarketCaps c)))) \<and>
              (distinct (heldMints accounts) \<longrightarrow>
                 (\<forall>mint \<in> set batch. mint \<notin> set (map fst (JSON_stringify (currentMarketCaps c))))))))"
proof -
  obtain batches where ch: "chunkArray (heldMints accounts) 99 = Some batches"
    and cc: "concat batches = heldMints accounts"
    using chunkArray_returns[of 99 "heldMints accounts"] by auto
  have "fetchTokenPrices raydium (array_join batch '','') = Prices (\<lambda>mint. None) \<and>
        (\<forall>c. process_batch (fetchTokenPrices raydium (array_join batch '','')) batch c
               = Inr (c\<lparr>unbondedCoins := unbondedCoins c @ batch\<rparr>)) \<and>
        ((\<forall>b \<in> set batches. raydium (array_join b '','') \<noteq> Resolved Nullish) \<and>
         files w PREVIOUS_MARKET_CAPS_FILE \<noteq> Some NotJson \<longrightarrow>
           (\<exists>c previous w'. process_batches raydium batches no_coins = Inr c \<and>
              set batch \<subseteq> set (unbondedCoins c) \<and>
              loadPreviousData w = Inr previous \<and>
              getAllTokenBalances (Inr accounts) raydium w = Some w' \<and>
              telegram w' = telegram w @ marketCapChanges (currentMarketCaps c) previous \<and>
              files w' PREVIOUS_MARKET_CAPS_FILE
                = Some (JsonObject (JSON_stringify (currentMarketCaps c))) \<and>
              (\<forall>mint \<in> set batch.
                  (\<forall>b \<in> set batches. mint \<in> set b \<longrightarrow> raydium (array_join b '','') = Rejected) \<longrightarrow>
                  mint \<notin> set (map fst (JSON_stringify (currentMarketCaps c)))) \<and>
              (distinct (heldMints accounts) \<longrightarrow>
                 (\<forall>mint \<in> set batch. mint \<notin> set (map fst (JSON_stringify (currentMarketCaps c)))))))"
    if batch: "batch \<in> set batches" and rej: "raydium (array_join batch '','') = Rejected"
    for batch
  proof (intro conjI impI allI)
    show f: "fetchTokenPrices raydium (array_join batch '','') = Prices (\<lambda>mint. None)"
      using rej by (simp add: fetchTokenPrices_def)
    show "process_batch (fetchTokenPrices raydium (array_join batch '','')) batch c
               = Inr (c\<lparr>unbondedCoins := unbondedCoins c @ batch\<rparr>)" for c
      by (simp add: f classify_mints_no_prices)
  next
    assume a: "(\<forall>b \<in> set batches. raydium (array_join b '','') \<noteq> Resolved Nullish) \<and>
         files w PREVIOUS_MARKET_CAPS_FILE \<noteq> Some NotJson"
    from a process_batches_returns[of batches raydium no_coins] obtain c
      where c: "process_batches raydium batches no_coins = Inr c" by blast
    from a loadPreviousData_returns[of w] obtain previous
      where p: "loadPreviousData w = Inr previous" by blast
    note run = run_completes[OF ch assms c p]
    note keys = snapshot_keys[OF c]
    have general: "mint \<notin> set (map fst (JSON_stringify (currentMarketCaps c)))"
      if "\<forall>b \<in> set batches. mint \<in> set b \<longrightarrow> raydium (array_join b '','') = Rejected" for mint
      using rejected_not_priced[OF that] keys by blast
    have special: "mint \<notin> set (map fst (JSON_stringify (currentMarketCaps c)))"
      if d: "distinct (heldMints accounts)" and m: "mint \<in> set batch" for mint
    proof (rule general, intro ballI impI)
      fix b assume b: "b \<in> set batches" "mint \<in> set b"
      from d cc have "distinct (concat batches)" by simp
      then have "b = batch" using batch b(1) m b(2) by (rule distinct_batches)
      with rej show "raydium (array_join b '','') = Rejected" by simp
    qed
    show "\<exists>c previous w'. process_batches raydium batches no_coins = Inr c \<and>
              set batch \<subseteq> set (unbondedCoins c) \<and>
              loadPreviousData w = Inr previous \<and>
              getAllTokenBalances (Inr accounts) raydium w = Some w' \<and>
              telegram w' = telegram w @ marketCapChanges (currentMarketCaps c) previous \<and>
              files w' PREVIOUS_MARKET_CAPS_FILE
                = Some (JsonObject (JSON_stringify (currentMarketCaps c))) \<and>
              (\<forall>mint \<in> set batch.
                  (\<forall>b \<in> set batches. mint \<in> set b \<longrightarrow> raydium (array_join b '','') = Rejected) \<longrightarrow>
                  mint \<notin> set (map fst (JSON_stringify (currentMarketCaps c)))) \<and>
              (distinct (heldMints accounts) \<longrightarrow>
                 (\<forall>mint \<in> set batch. mint \<notin> set (map fst (JSON_stringify (currentMarketCaps c)))))"
    proof (intro exI conjI)
      show "process_batches raydium batches no_coins = Inr c" by (rule c)
      show "set batch \<subseteq> set (unbondedCoins c)" by (rule rejected_batch_unbonded[OF c batch rej])
      show "loadPreviousData w = Inr previous" by (rule p)
      show "getAllTokenBalances (Inr accounts) raydium w = Some (savePreviousData (currentMarketCaps c)
                   (w\<lparr>telegram := telegram w @ marketCapChanges (currentMarketCaps c) previous\<rparr>))"
        by (rule run)
      show "telegram (savePreviousData (currentMarketCaps c)
                   (w\<lparr>telegram := telegram w @ marketCapChanges (currentMarketCaps c) previous\<rparr>))
              = telegram w @ marketCapChanges (currentMarketCaps c) previous"
        by (simp add: telegram_savePreviousData)
      show "files (savePreviousData (currentMarketCaps c)
                   (w\<lparr>telegram := telegram w @ marketCapChanges (currentMarketCaps c) previous\<rparr>))
              PREVIOUS_MARKET_CAPS_FILE = Some (JsonObject (JSON_stringify (currentMarketCaps c)))"
        by (rule files_savePreviousData)
      show "\<forall>mint \<in> set batch.
                  (\<forall>b \<in> set batches. mint \<in> set b \<longrightarrow> raydium (array_join b '','') = Rejected) \<longrightarrow>
                  mint \<notin> set (map fst (JSON_stringify (currentMarketCaps c)))"
        using general by blast
      show "distinct (heldMints accounts) \<longrightarrow>
                 (\<forall>mint \<in> set batch. mint \<notin> set (map fst (JSON_stringify (currentMarketCaps c))))"
        using special by blast
    qed
  qed
  with ch show ?thesis by blast
qed

theorem rejected_batch_degrades_witness:
  "heldMints two_accounts \<noteq> [] \<and>
   chunkArray (heldMints two_accounts) 99 = Some [[''A'', ''B'']] \<and>
   unreachable (array_join [''A'', ''B''] '','') = Rejected \<and>
   files later_world PREVIOUS_MARKET_CAPS_FILE \<noteq> Some NotJson \<and>
   distinct (heldMints two_accounts) \<and>
   (\<exists>c w'. process_batches unreachable [[''A'', ''B'']] no_coins = Inr c \<and>
         set [''A'', ''B''] \<subseteq> set (unbondedCoins c) \<and>
         getAllTokenBalances (Inr two_accounts) unreachable later_world = Some w' \<and>
         files w' PREVIOUS_MARKET_CAPS_FILE = Some (JsonObject (JSON_stringify (currentMarketCaps c))) \<and>
         ''A'' \<notin> set (map fst (JSON_stringify (currentMarketCaps c))) \<and>
         ''B'' \<notin> set (map fst (JSON_stringify (currentMarketCaps c))))"
proof -
  have held: "heldMints two_accounts \<noteq> []" by (simp add: two_accounts_held)
  have ch: "chunkArray (heldMints two_accounts) 99 = Some [[''A'', ''B'']]"
    by (simp only: two_accounts_held two_accounts_batches)
  have rej: "unreachable (array_join [''A'', ''B''] '','') = Rejected"
    by (simp add: unreachable_def)
  have parses: "files later_world PREVIOUS_MARKET_CAPS_FILE \<noteq> Some NotJson"
    by (simp add: later_world_def)
  have dist: "distinct (heldMints two_accounts)" by (simp add: two_accounts_held)
  from rejected_batch_degrades[OF held, of unreachable later_world]
  obtain batches where b: "chunkArray (heldMints two_accounts) 99 = Some batches"
    and all: "\<forall>batch \<in> set batches. unreachable (array_join batch '','') = Rejected \<longrightarrow>
        fetchTokenPrices unreachable (array_join batch '','') = Prices (\<lambda>mint. None) \<and>
        (\<forall>c. process_batch (fetchTokenPrices unreachable (array_join batch '','')) batch c
               = Inr (c\<lparr>unbondedCoins := unbondedCoins c @ batch\<rparr>)) \<and>
        ((\<forall>b \<in> set batches. unreachable (array_join b '','') \<noteq> Resolved Nullish) \<and>
         files later_world PREVIOUS_MARKET_CAPS_FILE \<noteq> Some NotJson \<longrightarrow>
           (\<exists>c previous w'. process_batches unreachable batches no_coins = Inr c \<and>
              set batch \<subseteq> set (unbondedCoins c) \<and>
              loadPreviousData later_world = Inr previous \<and>
              getAllTokenBalances (Inr two_accounts) unreachable later_world = Some w' \<and>
              telegram w' = telegram later_world @ marketCapChanges (currentMarketCaps c) previous \<and>
              files w' PREVIOUS_MARKET_CAPS_FILE
                = Some (JsonObject (JSON_stringify (currentMarketCaps c))) \<and>
              (\<forall>mint \<in> set batch.
                  (\<forall>b \<in> set batches. mint \<in> set b \<longrightarrow> unreachable (array_join b '','') = Rejected) \<longrightarrow>
                  mint \<notin> set (map fst (JSON_stringify (currentMarketCaps c)))) \<and>
              (distinct (heldMints two_accounts) \<longrightarrow>
                 (\<forall>mint \<in> set batch. mint \<notin> set (map fst (JSON_stringify (currentMarketCaps c)))))))"
    by blast
  from b ch have eq: "batches = [[''A'', ''B'']]" by simp
  have mem: "[''A'', ''B''] \<in> set batches" by (simp add: eq)
  have ok: "\<forall>b \<in> set batches. unreachable (array_join b '','') \<noteq> Resolved Nullish"
    by (simp add: unreachable_def)
  from all mem rej ok parses obtain c w' where
    c: "process_batches unreachable batches no_coins = Inr c"
    and u: "set [''A'', ''B''] \<subseteq> set (unbondedCoins c)"
    and run: "getAllTokenBalances (Inr two_accounts) unreachable later_world = Some w'"
    and f: "files w' PREVIOUS_MARKET_CAPS_FILE = Some (JsonObject (JSON_stringify (currentMarketCaps c)))"
    and d: "distinct (heldMints two_accounts) \<longrightarrow>
                 (\<forall>mint \<in> set [''A'', ''B'']. mint \<notin> set (map fst (JSON_stringify (currentMarketCaps c))))"
    by blast
  from d dist have "''A'' \<notin> set (map fst (JSON_stringify (currentMarketCaps c)))"
    and "''B'' \<notin> set (map fst (JSON_stringify (currentMarketCaps c)))"
    by simp_all
  with c[unfolded eq] u run f held ch rej parses dist show ?thesis by blast
qed

text \<open>
  Claim C9 as first stated promises, after any rejected batch, a run that goes on to
  persist a snapshot without the tokens of that batch. Three runs with a rejected batch
  do otherwise. With a snapshot file that does not parse, the run returns and the file
  is as before. With a second batch answered without data, the run returns and the old
  snapshot, with its token T, is still there. With the mint X held in both batches and
  the second batch quoted, the snapshot written holds X, a token of the rejected batch.
\<close>

theorem rejected_batch_run_counterexample:
  "chunkArray (heldMints two_accounts) 99 = Some [[''A'', ''B'']] \<and>
   unreachable (array_join [''A'', ''B''] '','') = Rejected \<and>
   files corrupt_world PREVIOUS_MARKET_CAPS_FILE = Some NotJson \<and>
   getAllTokenBalances (Inr two_accounts) unreachable corrupt_world = Some corrupt_world \<and>
   chunkArray (heldMints ninety_nine_and_Y) 99 = Some [replicate 99 ''X'', [''Y'']] \<and>
   no_data_for_Y (array_join (replicate 99 ''X'') '','') = Rejected \<and>
   files later_world PREVIOUS_MARKET_CAPS_FILE = Some (JsonObject [(''T'', JNumber 10000)]) \<and>
   getAllTokenBalances (Inr ninety_nine_and_Y) no_data_for_Y later_world = Some later_world \<and>
   chunkArray (heldMints hundred_accounts) 99 = Some [replicate 99 ''X'', [''X'']] \<and>
   quotes_X_alone (array_join (replicate 99 ''X'') '','') = Rejected \<and>
   getAllTokenBalances (Inr hundred_accounts) quotes_X_alone first_world = Some X_world \<and>
   files X_world PREVIOUS_MARKET_CAPS_FILE = Some (JsonObject [(''X'', JNumber 2000000)])"
proof (intro conjI)
  show "chunkArray (heldMints two_accounts) 99 = Some [[''A'', ''B'']]"
    by (simp only: two_accounts_held two_accounts_batches)
  show "unreachable (array_join [''A'', ''B''] '','') = Rejected"
    by (simp add: unreachable_def)
  show "files corrupt_world PREVIOUS_MARKET_CAPS_FILE = Some NotJson"
    by (simp add: corrupt_world_def)
  show "getAllTokenBalances (Inr two_accounts) unreachable corrupt_world = Some corrupt_world"
    by (simp add: getAllTokenBalances_def run_body_def two_accounts_held two_accounts_batches
        fetchTokenPrices_def unreachable_def trackMarketCapChanges_def loadPreviousData_def
        corrupt_world_def)
  show "chunkArray (heldMints ninety_nine_and_Y) 99 = Some [replicate 99 ''X'', [''Y'']]"
    by (simp only: ninety_nine_and_Y_held ninety_nine_and_Y_batches)
  show "no_data_for_Y (array_join (replicate 99 ''X'') '','') = Rejected"
    by (simp add: no_data_for_Y_def first_batch_request)
  show "files later_world PREVIOUS_MARKET_CAPS_FILE = Some (JsonObject [(''T'', JNumber 10000)])"
    by (simp add: later_world_def)
  show "getAllTokenBalances (Inr ninety_nine_and_Y) no_data_for_Y later_world = Some later_world"
    by (simp add: getAllTokenBalances_def run_body_def ninety_nine_and_Y_held
        ninety_nine_and_Y_batches first_batch_request classify_mints_no_prices
        fetchTokenPrices_def no_data_for_Y_def)
  show "chunkArray (heldMints hundred_accounts) 99 = Some [replicate 99 ''X'', [''X'']]"
    by (simp only: hundred_accounts_held hundred_accounts_batches)
  show "quotes_X_alone (array_join (replicate 99 ''X'') '','') = Rejected"
    by (simp add: quotes_X_alone_def first_batch_request)
  show "getAllTokenBalances (Inr hundred_accounts) quotes_X_alone first_world = Some X_world"
    by (simp add: getAllTokenBalances_def run_body_def hundred_accounts_held
        hundred_accounts_batches first_batch_request classify_mints_no_prices
        fetchTokenPrices_def quotes_X_alone_def trackMarketCapChanges_def loadPreviousData_def
        first_world_def savePreviousData_def no_coins_def X_world_def marketCapChanges_def
        own_keys_def get_prop_def fun_eq_iff)
  show "files X_world PREVIOUS_MARKET_CAPS_FILE = Some (JsonObject [(''X'', JNumber 2000000)])"
    by (simp add: X_world_def)
qed

end
